theory Spec2Isabelle
  imports Main
begin

section \<open>Connection supervisor (config/db.connection)\<close>

text \<open>
  \<^verbatim>\<open>connectDB\<close> keeps one module-level counter, \<^verbatim>\<open>retryCount\<close>. One call either
  connects (the counter becomes 0 and no timer is set) or fails (the counter is incremented
  and \<^verbatim>\<open>setTimeout(connectDB, retryDelay)\<close> schedules the next call). The outcome of
  \<^verbatim>\<open>mongoose.connect\<close> is the input of a call; the result is the new counter and the
  delay of the scheduled retry, in milliseconds, if any.

  The source computes the delay on doubles; \<^verbatim>\<open>2 ** k\<close> is exact up to \<open>k = 1023\<close> and
  \<^verbatim>\<open>Infinity\<close> beyond, and \<^verbatim>\<open>Math.min\<close> with 60000 gives the same number as the
  computation on naturals below.
\<close>

definition MAX_RETRY_DELAY :: nat where
  "MAX_RETRY_DELAY = 60000"

datatype connect_outcome = ConnectOk | ConnectFailed

definition retryDelay :: "nat \<Rightarrow> nat" where
  "retryDelay retryCount = min (5000 * 2 ^ (retryCount - 1)) MAX_RETRY_DELAY"

definition connectDB :: "connect_outcome \<Rightarrow> nat \<Rightarrow> nat \<times> nat option" where
  "connectDB outcome retryCount =
     (case outcome of
        ConnectOk \<Rightarrow> (0, None)
      | ConnectFailed \<Rightarrow> (retryCount + 1, Some (retryDelay (retryCount + 1))))"

text \<open>
  A sequence of calls of \<^verbatim>\<open>connectDB\<close>, one per outcome: the counter is threaded through
  and the scheduled delays are collected in order.
\<close>

fun run_connectDB :: "connect_outcome list \<Rightarrow> nat \<Rightarrow> nat \<times> nat option list" where
  "run_connectDB [] retryCount = (retryCount, [])"
| "run_connectDB (outcome # rest) retryCount =
     (case connectDB outcome retryCount of
        (retryCount', scheduled) \<Rightarrow>
          (case run_connectDB rest retryCount' of
             (final, delays) \<Rightarrow> (final, scheduled # delays)))"

section \<open>Strings and numbers as the controllers read them\<close>

text \<open>
  The request fields are strings, or absent (\<open>None\<close>, JavaScript's \<^verbatim>\<open>undefined\<close>).
  \<^verbatim>\<open>!email\<close> holds of an absent field and of the empty string. A string is a sequence
  of code units below 256 (the Latin-1 range of JavaScript's strings): the character \<open>c\<close>
  is the code unit \<open>of_char c\<close>. On these, the white space that \<^verbatim>\<open>parseInt\<close> and
  \<^verbatim>\<open>trim\<close> skip is U+0009 to U+000D, U+0020 and U+00A0, and the letters that
  \<^verbatim>\<open>toLowerCase\<close> changes are A to Z and U+00C0 to U+00DE without U+00D7.
\<close>

definition truthy :: "string option \<Rightarrow> bool" where
  "truthy v = (case v of None \<Rightarrow> False | Some s \<Rightarrow> s \<noteq> [])"

text \<open>The string of a field that passed the \<^verbatim>\<open>!field\<close> check.\<close>

definition fieldValue :: "string option \<Rightarrow> string" where
  "fieldValue v = (case v of None \<Rightarrow> [] | Some s \<Rightarrow> s)"

definition isWhiteSpace :: "char \<Rightarrow> bool" where
  "isWhiteSpace c =
     (let n = (of_char c :: nat)
      in n = 9 \<or> n = 10 \<or> n = 11 \<or> n = 12 \<or> n = 13 \<or> n = 32 \<or> n = 160)"

definition digitValue :: "char \<Rightarrow> nat option" where
  "digitValue c =
     (let n = (of_char c :: nat)
      in if 48 \<le> n \<and> n \<le> 57 then Some (n - 48)
         else if 97 \<le> n \<and> n \<le> 122 then Some (n - 87)
         else if 65 \<le> n \<and> n \<le> 90 then Some (n - 55)
         else None)"

definition isRadixDigit :: "nat \<Rightarrow> char \<Rightarrow> bool" where
  "isRadixDigit R c = (case digitValue c of None \<Rightarrow> False | Some d \<Rightarrow> d < R)"

fun digitsValue :: "nat \<Rightarrow> nat \<Rightarrow> string \<Rightarrow> nat" where
  "digitsValue R acc [] = acc"
| "digitsValue R acc (c # cs) =
     digitsValue R (acc * R + (case digitValue c of None \<Rightarrow> 0 | Some d \<Rightarrow> d)) cs"

text \<open>
  \<^verbatim>\<open>parseInt(string)\<close> with no radix: leading white space is skipped, one sign is read,
  a prefix \<^verbatim>\<open>0x\<close> or \<^verbatim>\<open>0X\<close> selects radix 16, and the longest run of digits of the
  radix is the value; anything after it is ignored. With no digit the result is
  \<^verbatim>\<open>NaN\<close>, here \<open>None\<close>. The value is the exact integer: JavaScript rounds it to a
  double, which changes only values above \<open>2 ^ 53\<close>, and those stay above every passcode.
\<close>

definition parseInt :: "string \<Rightarrow> int option" where
  "parseInt input =
     (let S = dropWhile isWhiteSpace input;
          negative = (take 1 S = ''-'');
          S1 = (if take 1 S = ''+'' \<or> take 1 S = ''-'' then drop 1 S else S);
          hex = (take 2 S1 = ''0x'' \<or> take 2 S1 = ''0X'');
          R = (if hex then 16 else 10);
          S2 = (if hex then drop 2 S1 else S1);
          Z = takeWhile (isRadixDigit R) S2
      in if Z = [] then None
         else Some ((if negative then - 1 else 1) * int (digitsValue R 0 Z)))"

section \<open>The User model (models/user.model)\<close>

text \<open>
  The schema: \<^verbatim>\<open>name\<close> (required, trim), \<^verbatim>\<open>email\<close> (required, unique, lowercase,
  trim), \<^verbatim>\<open>password\<close> (required, minlength 6), \<^verbatim>\<open>isVerified\<close> (default false).
  \<open>user_id\<close> is the document's \<^verbatim>\<open>_id\<close>.
\<close>

record user =
  user_id :: nat
  user_name :: string
  user_email :: string
  user_password :: string
  user_isVerified :: bool

definition toLowerCase :: "string \<Rightarrow> string" where
  "toLowerCase s =
     map (\<lambda>c. let n = (of_char c :: nat)
               in if (65 \<le> n \<and> n \<le> 90) \<or> (192 \<le> n \<and> n \<le> 222 \<and> n \<noteq> 215)
                  then char_of (n + 32) else c) s"

definition trim :: "string \<Rightarrow> string" where
  "trim s = rev (dropWhile isWhiteSpace (rev (dropWhile isWhiteSpace s)))"

text \<open>
  The setters of the \<^verbatim>\<open>email\<close> path (\<^verbatim>\<open>lowercase: true, trim: true\<close>). Mongoose runs
  a path's setters on the value it saves and on the value of a query filter.
\<close>

definition emailSetter :: "string \<Rightarrow> string" where
  "emailSetter email = trim (toLowerCase email)"

datatype store_error = ValidationError | DuplicateKey

text \<open>\<^verbatim>\<open>User.findOne({ email })\<close> on the collection \<open>docs\<close>.\<close>

definition findOne :: "user list \<Rightarrow> string \<Rightarrow> user option" where
  "findOne docs email = find (\<lambda>u. user_email u = emailSetter email) docs"

text \<open>
  \<^verbatim>\<open>User.create({ name, email, password: hashedPassword, isVerified: false })\<close>: the setters
  are applied, the validators run (an empty string fails \<^verbatim>\<open>required\<close>), and the unique
  index on \<^verbatim>\<open>email\<close> refuses a second document with the same email. A failure is a
  rejected promise, here \<open>Inl\<close>.
\<close>

definition create :: "user list \<Rightarrow> nat \<Rightarrow> string \<Rightarrow> string \<Rightarrow> string
    \<Rightarrow> store_error + (user \<times> user list)" where
  "create docs newId name email hashedPassword =
     (let doc = \<lparr>user_id = newId, user_name = trim name, user_email = emailSetter email,
                 user_password = hashedPassword, user_isVerified = False\<rparr>
      in if user_name doc = [] \<or> user_email doc = [] \<or> user_password doc = []
            \<or> length (user_password doc) < 6
         then Inl ValidationError
         else (case findOne docs email of
                 Some other \<Rightarrow> Inl DuplicateKey
               | None \<Rightarrow> Inr (doc, docs @ [doc])))"

text \<open>
  \<^verbatim>\<open>User.findOneAndUpdate({ email }, { isVerified: true }, { new: true })\<close>: the first
  document with the email is updated; the result is the updated document and the new
  collection, or \<open>None\<close> (\<^verbatim>\<open>null\<close>) when no document has the email.
\<close>

fun findOneAndUpdate :: "user list \<Rightarrow> string \<Rightarrow> (user \<times> user list) option" where
  "findOneAndUpdate [] email = None"
| "findOneAndUpdate (u # docs) email =
     (if user_email u = emailSetter email
      then Some (u\<lparr>user_isVerified := True\<rparr>, u\<lparr>user_isVerified := True\<rparr> # docs)
      else (case findOneAndUpdate docs email of
              None \<Rightarrow> None
            | Some (updated, docs') \<Rightarrow> Some (updated, u # docs')))"

section \<open>The OTP cache and the controllers (controllers/auth.controller)\<close>

definition OTP_EXPIRY_TIME :: int where
  "OTP_EXPIRY_TIME = 10 * 60 * 1000"

definition OTP_LENGTH :: nat where
  "OTP_LENGTH = 6"

record otp_entry =
  entry_otp :: int
  entry_timestamp :: int

text \<open>
  The state the controllers work on: the \<^verbatim>\<open>User\<close> collection and the module-level
  \<^verbatim>\<open>otpCache\<close>, a \<^verbatim>\<open>Map\<close> from the email of the request to \<^verbatim>\<open>{ otp, timestamp }\<close>.
\<close>

record state =
  User :: "user list"
  otpCache :: "string \<rightharpoonup> otp_entry"

text \<open>
  What a controller gets from outside the repository during one request. The values
  are inputs of the model: the bcrypt functions, \<^verbatim>\<open>jwt.sign\<close> with the secret and the
  expiry fixed, the \<^verbatim>\<open>_id\<close> of a new document, the draw of the random source,
  \<^verbatim>\<open>Date.now()\<close> in milliseconds, and whether the promise of \<^verbatim>\<open>sendEmail\<close> (utils/sendEmail)
  resolves or rejects.
\<close>

datatype mail_outcome = MailResolved | MailRejected

record 'tok externals =
  bcrypt_hash :: "string \<Rightarrow> string"
  bcrypt_compare :: "string \<Rightarrow> string \<Rightarrow> bool"
  jwt_sign :: "nat \<Rightarrow> 'tok"
  objectId :: nat
  random_draw :: nat
  date_now :: int
  sendEmail :: mail_outcome

text \<open>
  \<^verbatim>\<open>crypto.randomInt(min, max)\<close>, for \<open>min < max\<close>, returns an integer \<open>n\<close> with
  \<open>min \<le> n < max\<close>; which one is decided by the random source. Its draw is a natural
  number, and the result is \<open>min\<close> plus the draw reduced below \<open>max - min\<close>.
  \<^verbatim>\<open>generateOtp\<close> is the one caller, with \<^verbatim>\<open>10 ** (OTP_LENGTH - 1)\<close> and
  \<^verbatim>\<open>10 ** OTP_LENGTH - 1\<close>.
\<close>

definition randomInt :: "nat \<Rightarrow> int \<Rightarrow> int \<Rightarrow> int" where
  "randomInt draw lo hi = lo + int (draw mod nat (hi - lo))"

definition generateOtp :: "'tok externals \<Rightarrow> int" where
  "generateOtp ext = randomInt (random_draw ext) (10 ^ (OTP_LENGTH - 1)) (10 ^ OTP_LENGTH - 1)"

text \<open>
  The responses: \<^verbatim>\<open>sendErrorResponse(res, status, message)\<close>, the 400 of
  \<^verbatim>\<open>validateRequest\<close>, and \<^verbatim>\<open>sendSuccessResponse(res, status, { message, ... })\<close>.
  \<open>Session token id name email\<close> is \<^verbatim>\<open>{ token, user: { id, name, email } }\<close>; the same
  token is set as the cookie.
\<close>

datatype 'tok data = NoData | UserId nat | Session 'tok nat string string

datatype 'tok response =
    ErrorResponse nat string
  | ValidationFailed "string list"
  | SuccessResponse nat string "'tok data"

definition validateRequest :: "string list \<Rightarrow> 'tok response option" where
  "validateRequest errors =
     (if errors \<noteq> [] then Some (ValidationFailed errors) else None)"

definition cleanExpiredOtps :: "int \<Rightarrow> (string \<rightharpoonup> otp_entry) \<Rightarrow> (string \<rightharpoonup> otp_entry)" where
  "cleanExpiredOtps now cache =
     (\<lambda>email. case cache email of
                 None \<Rightarrow> None
               | Some data \<Rightarrow>
                   if now - entry_timestamp data > OTP_EXPIRY_TIME then None else Some data)"

text \<open>
  The controllers. \<open>errors\<close> is \<^verbatim>\<open>validationResult(req).array()\<close>. The store is
  connected, and \<^verbatim>\<open>bcrypt.hash\<close>, \<^verbatim>\<open>bcrypt.compare\<close> and \<^verbatim>\<open>jwt.sign\<close> return. The
  rejections in the model are those of \<^verbatim>\<open>User.create\<close> and of \<^verbatim>\<open>sendEmail\<close>: inside the
  \<^verbatim>\<open>try\<close> they reach the one \<^verbatim>\<open>catch\<close>, which answers 500, and the writes made before
  stay.

  \<^verbatim>\<open>registerUser\<close>. The route runs the Joi schema first, so \<^verbatim>\<open>name\<close>, \<^verbatim>\<open>email\<close> and
  \<^verbatim>\<open>password\<close> are strings.
\<close>

definition registerUser :: "string list \<Rightarrow> string \<Rightarrow> string \<Rightarrow> string \<Rightarrow> 'tok externals
    \<Rightarrow> state \<Rightarrow> 'tok response \<times> state" where
  "registerUser errors name email password ext st =
     (case validateRequest errors of
        Some validationError \<Rightarrow> (validationError, st)
      | None \<Rightarrow>
          (case findOne (User st) email of
             Some existingUser \<Rightarrow> (ErrorResponse 400 ''User already exists'', st)
           | None \<Rightarrow>
               (case create (User st) (objectId ext) name email (bcrypt_hash ext password) of
                  Inl err \<Rightarrow> (ErrorResponse 500 ''Internal server error'', st)
                | Inr (newUser, docs) \<Rightarrow>
                    (let otp = generateOtp ext;
                         st' = \<lparr>User = docs,
                                otpCache = (otpCache st)(email \<mapsto>
                                  \<lparr>entry_otp = otp, entry_timestamp = date_now ext\<rparr>)\<rparr>
                     in case sendEmail ext of
                          MailRejected \<Rightarrow> (ErrorResponse 500 ''Internal server error'', st')
                        | MailResolved \<Rightarrow>
                            (SuccessResponse 201
                               ''User registered successfully. Please check your email for the OTP.''
                               (UserId (user_id newUser)), st')))))"

definition verifyOtp :: "string list \<Rightarrow> string option \<Rightarrow> string option \<Rightarrow> 'tok externals
    \<Rightarrow> state \<Rightarrow> 'tok response \<times> state" where
  "verifyOtp errors email otp ext st =
     (case validateRequest errors of
        Some validationError \<Rightarrow> (validationError, st)
      | None \<Rightarrow>
          if \<not> truthy email \<or> \<not> truthy otp
          then (ErrorResponse 400 ''Email and OTP are required'', st)
          else
            (let e = fieldValue email;
                 cleaned = cleanExpiredOtps (date_now ext) (otpCache st)
             in case cleaned e of
                  None \<Rightarrow>
                    (ErrorResponse 400 ''OTP not generated or expired'',
                     st\<lparr>otpCache := cleaned\<rparr>)
                | Some otpData \<Rightarrow>
                    if parseInt (fieldValue otp) \<noteq> Some (entry_otp otpData)
                    then (ErrorResponse 400 ''Invalid OTP'', st\<lparr>otpCache := cleaned\<rparr>)
                    else
                      (let deleted = cleaned(e := None)
                       in case findOneAndUpdate (User st) e of
                            None \<Rightarrow>
                              (ErrorResponse 404 ''User not found'',
                               st\<lparr>otpCache := deleted\<rparr>)
                          | Some (u, docs) \<Rightarrow>
                              (SuccessResponse 200 ''Account verified successfully.''
                                 (Session (jwt_sign ext (user_id u)) (user_id u)
                                    (user_name u) (user_email u)),
                               \<lparr>User = docs, otpCache = deleted\<rparr>))))"

text \<open>\<^verbatim>\<open>loginUser\<close>. The route runs the Joi schema first: both fields are strings.\<close>

definition loginUser :: "string list \<Rightarrow> string \<Rightarrow> string \<Rightarrow> 'tok externals
    \<Rightarrow> state \<Rightarrow> 'tok response \<times> state" where
  "loginUser errors email password ext st =
     (case validateRequest errors of
        Some validationError \<Rightarrow> (validationError, st)
      | None \<Rightarrow>
          (case findOne (User st) email of
             None \<Rightarrow> (ErrorResponse 401 ''Invalid email or password'', st)
           | Some u \<Rightarrow>
               if \<not> user_isVerified u
               then (ErrorResponse 401 ''Please verify your account first'', st)
               else if \<not> bcrypt_compare ext password (user_password u)
               then (ErrorResponse 401 ''Invalid email or password'', st)
               else (SuccessResponse 200 ''Login successful''
                       (Session (jwt_sign ext (user_id u)) (user_id u)
                          (user_name u) (user_email u)), st)))"

definition resendOtp :: "string list \<Rightarrow> string option \<Rightarrow> 'tok externals
    \<Rightarrow> state \<Rightarrow> 'tok response \<times> state" where
  "resendOtp errors email ext st =
     (case validateRequest errors of
        Some validationError \<Rightarrow> (validationError, st)
      | None \<Rightarrow>
          if \<not> truthy email then (ErrorResponse 400 ''Email is required'', st)
          else
            (let e = fieldValue email
             in case findOne (User st) e of
                  None \<Rightarrow> (ErrorResponse 404 ''User not found'', st)
                | Some u \<Rightarrow>
                    (let otp = generateOtp ext;
                         st' = st\<lparr>otpCache := (otpCache st)(e \<mapsto>
                                 \<lparr>entry_otp = otp, entry_timestamp = date_now ext\<rparr>)\<rparr>
                     in case sendEmail ext of
                          MailRejected \<Rightarrow> (ErrorResponse 500 ''Internal server error'', st')
                        | MailResolved \<Rightarrow>
                            (SuccessResponse 200 ''New OTP sent successfully'' NoData, st'))))"

section \<open>Session tokens\<close>

text \<open>
  Modelled from the spec: the Token Issuer, \<^verbatim>\<open>jwt.sign\<close> and \<^verbatim>\<open>jwt.verify\<close> of the
  jsonwebtoken package, is not among the sources of the repository; only the calls are
  (\<^verbatim>\<open>jwt.sign({ id: user._id }, JWT_SECRET, { expiresIn: JWT_EXPIRE })\<close> in the controllers,
  \<^verbatim>\<open>jwt.verify(token, JWT_SECRET, ...)\<close> in the middleware, which answers 403 for every
  error). A token embeds the account identifier and an expiry instant and carries a
  signature, a deterministic function \<open>hmac\<close> of the server-held secret and the payload.
  \<open>token_issue\<close> gives the token a fixed validity window from the time of issue.
  \<open>token_verify\<close> fails with \<open>Malformed\<close> when the token cannot be parsed (\<open>None\<close>),
  with \<open>InvalidSignature\<close> when the signature does not match, with \<open>Expired\<close> when
  the embedded expiry has passed, and otherwise returns the embedded account identifier
  unchanged.
\<close>

record 'sig session_token =
  token_id :: nat
  token_exp :: int
  token_sig :: 'sig

datatype token_error = Malformed | InvalidSignature | Expired

definition token_issue :: "('secret \<Rightarrow> nat \<times> int \<Rightarrow> 'sig) \<Rightarrow> 'secret \<Rightarrow> int \<Rightarrow> int \<Rightarrow> nat
    \<Rightarrow> 'sig session_token" where
  "token_issue hmac secret validity now accountId =
     \<lparr>token_id = accountId, token_exp = now + validity,
      token_sig = hmac secret (accountId, now + validity)\<rparr>"

definition token_verify :: "('secret \<Rightarrow> nat \<times> int \<Rightarrow> 'sig) \<Rightarrow> 'secret \<Rightarrow> int
    \<Rightarrow> 'sig session_token option \<Rightarrow> token_error + nat" where
  "token_verify hmac secret now received =
     (case received of
        None \<Rightarrow> Inl Malformed
      | Some token \<Rightarrow>
          if token_sig token \<noteq> hmac secret (token_id token, token_exp token)
          then Inl InvalidSignature
          else if now < token_exp token then Inr (token_id token)
          else Inl Expired)"

section \<open>The notification channel\<close>



section \<open>Example inputs\<close>

text \<open>
  Concrete inputs for the instances below: a bcrypt stand-in that marks the password, a
  draw of 23456 (the passcode 123456), the state after one registration of Alice at time 0,
  and the empty state.
\<close>

definition example_externals :: "int \<Rightarrow> mail_outcome \<Rightarrow> string externals" where
  "example_externals now mail =
     \<lparr>bcrypt_hash = (\<lambda>password. ''bcrypt:'' @ password),
      bcrypt_compare = (\<lambda>password hashed. hashed = ''bcrypt:'' @ password),
      jwt_sign = (\<lambda>userId. ''jwt''),
      objectId = 1, random_draw = 23456, date_now = now, sendEmail = mail\<rparr>"

definition alice :: user where
  "alice = \<lparr>user_id = 1, user_name = ''Alice'', user_email = ''alice@x.com'',
            user_password = ''bcrypt:secret1'', user_isVerified = False\<rparr>"

definition empty_state :: state where
  "empty_state = \<lparr>User = [], otpCache = Map.empty\<rparr>"

definition registered_state :: state where
  "registered_state =
     \<lparr>User = [alice],
      otpCache = [''alice@x.com'' \<mapsto> \<lparr>entry_otp = 123456, entry_timestamp = 0\<rparr>]\<rparr>"

text \<open>The state after Alice verified her passcode.\<close>

definition verified_state :: state where
  "verified_state = \<lparr>User = [alice\<lparr>user_isVerified := True\<rparr>], otpCache = Map.empty\<rparr>"

text \<open>An entry whose account is not in the store.\<close>

definition orphan_state :: state where
  "orphan_state =
     \<lparr>User = [],
      otpCache = [''alice@x.com'' \<mapsto> \<lparr>entry_otp = 123456, entry_timestamp = 0\<rparr>]\<rparr>"

text \<open>A signature that pairs the secret with the payload.\<close>

definition example_hmac :: "string \<Rightarrow> nat \<times> int \<Rightarrow> string \<times> nat \<times> int" where
  "example_hmac secret payload = (secret, payload)"

section \<open>The connection supervisor's backoff\<close>

lemma run_connectDB_failures:
  "run_connectDB (replicate n ConnectFailed) rc =
     (rc + n, map (\<lambda>k. Some (retryDelay (rc + 1 + k))) [0..<n])"
proof (induction n arbitrary: rc)
  case 0
  show ?case by simp
next
  case (Suc n)
  have shift: "map (\<lambda>k. Some (retryDelay (rc + 1 + k))) [0..<Suc n] =
      Some (retryDelay (rc + 1)) # map (\<lambda>k. Some (retryDelay (rc + 1 + 1 + k))) [0..<n]"
  proof -
    have "[0..<Suc n] = 0 # map Suc [0..<n]"
      by (simp add: upt_conv_Cons map_Suc_upt del: upt_Suc)
    then show ?thesis by (simp add: comp_def del: upt_Suc)
  qed
  show ?case
    unfolding shift
    by (simp add: connectDB_def Suc.IH)
qed

text \<open>
  C7. The n-th consecutive failure, counted from a counter of zero, schedules a retry after
  \<open>5000 * 2 ^ (n - 1)\<close> ms capped at 60000 ms; a successful connect sets the counter to
  zero, and the first failure after it schedules the base delay of 5000 ms again.
\<close>

theorem connectDB_backoff:
  "run_connectDB (replicate n ConnectFailed) 0 =
     (n, map (\<lambda>k. Some (min (5000 * 2 ^ k) 60000)) [0..<n])
   \<and> connectDB ConnectOk rc = (0, None)
   \<and> connectDB ConnectFailed (fst (connectDB ConnectOk rc)) = (1, Some 5000)"
  by (simp add: run_connectDB_failures retryDelay_def MAX_RETRY_DELAY_def connectDB_def)

theorem connectDB_backoff_witness:
  "run_connectDB [ConnectFailed, ConnectFailed, ConnectFailed] 0 =
     (3, [Some 5000, Some 10000, Some 20000])
   \<and> connectDB ConnectOk 3 = (0, None)
   \<and> connectDB ConnectFailed (fst (connectDB ConnectOk 3)) = (1, Some 5000)"
  using connectDB_backoff [of 3 3]
  by (simp add: connectDB_def retryDelay_def MAX_RETRY_DELAY_def)

section \<open>The store and the cache\<close>

lemma findOneAndUpdate_None:
  "findOneAndUpdate docs email = None \<longleftrightarrow> findOne docs email = None"
  by (induction docs) (auto simp: findOne_def split: option.splits)

lemma findOneAndUpdate_Some:
  "findOne docs email = Some u \<Longrightarrow>
     \<exists>docs'. findOneAndUpdate docs email = Some (u\<lparr>user_isVerified := True\<rparr>, docs')
       \<and> map user_email docs' = map user_email docs
       \<and> length docs' = length docs"
  by (induction docs) (auto simp: findOne_def split: if_splits)

lemma findOneAndUpdate_verified:
  "findOneAndUpdate docs email = Some (u, docs') \<Longrightarrow>
     findOne docs' email = Some u \<and> user_isVerified u"
  by (induction docs arbitrary: docs') (auto simp: findOne_def split: if_splits option.splits)

lemma cleanExpiredOtps_live:
  "cache e = Some d \<Longrightarrow> now - entry_timestamp d \<le> OTP_EXPIRY_TIME \<Longrightarrow>
     cleanExpiredOtps now cache e = Some d"
  by (simp add: cleanExpiredOtps_def)

lemma cleanExpiredOtps_expired:
  "cache e = Some d \<Longrightarrow> now - entry_timestamp d > OTP_EXPIRY_TIME \<Longrightarrow>
     cleanExpiredOtps now cache e = None"
  by (simp add: cleanExpiredOtps_def)

lemma cleanExpiredOtps_absent:
  "cache e = None \<Longrightarrow> cleanExpiredOtps now cache e = None"
  by (simp add: cleanExpiredOtps_def)

lemma verifyOtp_no_entry:
  assumes "otpCache st e = None" "e \<noteq> []" "code \<noteq> []"
  shows "fst (verifyOtp [] (Some e) (Some code) ext st) =
           ErrorResponse 400 ''OTP not generated or expired''"
  using assms
  by (simp add: verifyOtp_def validateRequest_def truthy_def fieldValue_def
      cleanExpiredOtps_absent)

lemma verifyOtp_match:
  assumes "otpCache st e = Some d" "date_now ext - entry_timestamp d \<le> OTP_EXPIRY_TIME"
    "e \<noteq> []" "code \<noteq> []" "parseInt code = Some (entry_otp d)"
  shows "verifyOtp [] (Some e) (Some code) ext st =
     (case findOneAndUpdate (User st) e of
        None \<Rightarrow> (ErrorResponse 404 ''User not found'',
                 st\<lparr>otpCache := (cleanExpiredOtps (date_now ext) (otpCache st))(e := None)\<rparr>)
      | Some (u, docs) \<Rightarrow>
          (SuccessResponse 200 ''Account verified successfully.''
             (Session (jwt_sign ext (user_id u)) (user_id u) (user_name u) (user_email u)),
           \<lparr>User = docs, otpCache = (cleanExpiredOtps (date_now ext) (otpCache st))(e := None)\<rparr>))"
  using assms
  by (simp add: verifyOtp_def validateRequest_def truthy_def fieldValue_def
      cleanExpiredOtps_live Let_def)

lemma verifyOtp_mismatch:
  assumes "otpCache st e = Some d" "date_now ext - entry_timestamp d \<le> OTP_EXPIRY_TIME"
    "e \<noteq> []" "code \<noteq> []" "parseInt code \<noteq> Some (entry_otp d)"
  shows "verifyOtp [] (Some e) (Some code) ext st =
     (ErrorResponse 400 ''Invalid OTP'',
      st\<lparr>otpCache := cleanExpiredOtps (date_now ext) (otpCache st)\<rparr>)"
  using assms
  by (simp add: verifyOtp_def validateRequest_def truthy_def fieldValue_def
      cleanExpiredOtps_live)

lemma create_Inr:
  "create docs newId name email hashed = Inr (newUser, docs') \<Longrightarrow>
     docs' = docs @ [newUser] \<and> user_email newUser = emailSetter email
     \<and> \<not> user_isVerified newUser \<and> findOne docs email = None"
  by (auto simp: create_def Let_def split: if_splits option.splits)

lemma findOne_append:
  "findOne (docs @ [u]) email =
     (case findOne docs email of
        Some v \<Rightarrow> Some v
      | None \<Rightarrow> if user_email u = emailSetter email then Some u else None)"
  by (induction docs) (simp_all add: findOne_def)

lemma registerUser_issues:
  assumes "findOne (User st) email = None"
    and "create (User st) (objectId ext) name email (bcrypt_hash ext password) = Inr (newUser, docs)"
  shows "otpCache (snd (registerUser [] name email password ext st)) email =
           Some \<lparr>entry_otp = generateOtp ext, entry_timestamp = date_now ext\<rparr>
       \<and> findOne (User (snd (registerUser [] name email password ext st))) email = Some newUser"
  using assms create_Inr [OF assms(2)]
  by (cases "sendEmail ext")
     (simp_all add: registerUser_def validateRequest_def Let_def findOne_append)

lemma resendOtp_issues:
  assumes "e \<noteq> []" and "findOne (User st) e = Some u"
  shows "otpCache (snd (resendOtp [] (Some e) ext st)) e =
           Some \<lparr>entry_otp = generateOtp ext, entry_timestamp = date_now ext\<rparr>
       \<and> findOne (User (snd (resendOtp [] (Some e) ext st))) e = Some u"
  using assms
  by (cases "sendEmail ext")
     (simp_all add: resendOtp_def validateRequest_def truthy_def fieldValue_def Let_def)

lemma findOne_None_iff:
  "findOne docs email = None \<longleftrightarrow> emailSetter email \<notin> set (map user_email docs)"
  by (induction docs) (auto simp: findOne_def)



lemma findOneAndUpdate_emails:
  "findOneAndUpdate docs email = Some (u, docs') \<Longrightarrow> map user_email docs' = map user_email docs"
  by (induction docs arbitrary: docs') (auto split: if_splits option.splits)

lemma registerUser_emails_distinct:
  assumes "distinct (map user_email (User st))"
  shows "distinct (map user_email (User (snd (registerUser errors name email password ext st))))"
proof (cases "create (User st) (objectId ext) name email (bcrypt_hash ext password)")
  case (Inl err)
  then show ?thesis
    using assms
    by (simp add: registerUser_def validateRequest_def split: option.splits)
next
  case (Inr r)
  obtain newUser docs where r: "r = (newUser, docs)"
    by (cases r)
  have "docs = User st @ [newUser]" "user_email newUser = emailSetter email"
      "findOne (User st) email = None"
    using create_Inr [of "User st" "objectId ext" name email "bcrypt_hash ext password"
        newUser docs] Inr r by simp_all
  then have "distinct (map user_email docs)"
    using assms by (simp add: findOne_None_iff)
  then show ?thesis
    using assms Inr r
    by (simp add: registerUser_def validateRequest_def Let_def
        split: option.splits mail_outcome.splits)
qed

lemma verifyOtp_emails_distinct:
  assumes "distinct (map user_email (User st))"
  shows "distinct (map user_email (User (snd (verifyOtp errors email otp ext st))))"
  using assms
  by (auto simp: verifyOtp_def validateRequest_def Let_def findOneAndUpdate_emails
      split: option.splits)

lemma resendOtp_store: "User (snd (resendOtp errors email ext st)) = User st"
  by (simp add: resendOtp_def validateRequest_def Let_def
      split: option.splits mail_outcome.splits)

lemma loginUser_state: "snd (loginUser errors email password ext st) = st"
  by (simp add: loginUser_def validateRequest_def split: option.splits)

section \<open>The example inputs evaluated\<close>

lemmas example_defs = example_externals_def alice_def empty_state_def registered_state_def

lemma emailSetter_alice: "emailSetter ''alice@x.com'' = ''alice@x.com''"
  by (simp add: emailSetter_def trim_def toLowerCase_def isWhiteSpace_def)

lemma parseInt_123456: "parseInt ''123456'' = Some 123456"
  by (simp add: parseInt_def isWhiteSpace_def isRadixDigit_def digitValue_def)

lemma parseInt_654321: "parseInt ''654321'' = Some 654321"
  by (simp add: parseInt_def isWhiteSpace_def isRadixDigit_def digitValue_def)

lemma registerUser_example:
  "registerUser [] ''Alice'' ''alice@x.com'' ''secret1'' (example_externals 0 mail) empty_state =
     (case mail of
        MailResolved \<Rightarrow> SuccessResponse 201
          ''User registered successfully. Please check your email for the OTP.'' (UserId 1)
      | MailRejected \<Rightarrow> ErrorResponse 500 ''Internal server error'',
      registered_state)"
  by (cases mail)
     (simp_all add: registerUser_def validateRequest_def findOne_def create_def generateOtp_def
        randomInt_def OTP_LENGTH_def emailSetter_alice trim_def isWhiteSpace_def example_defs
        Let_def)

lemma generateOtp_example: "generateOtp (example_externals now mail) = 123456"
  by (simp add: generateOtp_def randomInt_def OTP_LENGTH_def example_externals_def)

lemma parseInt_123456abc: "parseInt ''123456abc'' = Some 123456"
  by (simp add: parseInt_def isWhiteSpace_def isRadixDigit_def digitValue_def)

lemma registered_entry:
  "otpCache registered_state ''alice@x.com'' = Some \<lparr>entry_otp = 123456, entry_timestamp = 0\<rparr>"
  by (simp add: registered_state_def)

lemma registered_account: "findOne (User registered_state) ''alice@x.com'' = Some alice"
  by (simp add: findOne_def emailSetter_alice registered_state_def alice_def)

lemma emailSetter_example: "emailSetter ''  Alice@X.com '' = ''alice@x.com''"
proof -
  have "char_of (97 :: nat) = CHR ''a''" "char_of (120 :: nat) = CHR ''x''"
    by code_simp+
  then show ?thesis
    by (simp add: emailSetter_def trim_def toLowerCase_def isWhiteSpace_def)
qed

lemma findOne_example: "findOne (User registered_state) ''  Alice@X.com '' = Some alice"
  by (simp add: findOne_def emailSetter_example registered_state_def alice_def)

lemma loginUser_after_verifyOtp:
  "fst (loginUser [] ''alice@x.com'' ''secret1'' (example_externals 2000 MailResolved)
          (snd (verifyOtp [] (Some ''alice@x.com'') (Some ''123456'')
                  (example_externals 1000 MailResolved) registered_state))) =
     SuccessResponse 200 ''Login successful'' (Session ''jwt'' 1 ''Alice'' ''alice@x.com'')"
  by (simp add: loginUser_def verifyOtp_def validateRequest_def truthy_def fieldValue_def
      cleanExpiredOtps_def OTP_EXPIRY_TIME_def parseInt_123456 findOne_def emailSetter_alice
      example_defs Let_def)

lemma create_alice:
  "create (User empty_state) (objectId (example_externals 0 mail)) ''Alice'' ''alice@x.com''
     (bcrypt_hash (example_externals 0 mail) ''secret1'') = Inr (alice, [alice])"
  by (simp add: create_def findOne_def emailSetter_alice trim_def isWhiteSpace_def
      example_defs Let_def)

lemma findOne_empty: "findOne (User empty_state) email = None"
  by (simp add: findOne_def empty_state_def)

section \<open>Verifying a passcode\<close>

text \<open>
  C3. An entry for \<open>e\<close> that is within the expiry window, with an account for \<open>e\<close> in the
  store (both hold right after \<^verbatim>\<open>registerUser\<close> or \<^verbatim>\<open>resendOtp\<close> wrote the entry, see
  \<open>registerUser_issues\<close> and \<open>resendOtp_issues\<close>): verifying with a code that
  \<^verbatim>\<open>parseInt\<close> reads as the stored one succeeds and deletes the entry, and the same
  request repeated, at any time, is answered 400 "OTP not generated or expired", the
  answer for an email with no entry.
\<close>

theorem verifyOtp_succeeds_exactly_once:
  assumes issued: "otpCache st e = Some d"
    and fresh: "date_now ext - entry_timestamp d \<le> OTP_EXPIRY_TIME"
    and account: "findOne (User st) e = Some u"
    and fields: "e \<noteq> []" "code \<noteq> []"
    and correct: "parseInt code = Some (entry_otp d)"
  shows "fst (verifyOtp [] (Some e) (Some code) ext st) =
           SuccessResponse 200 ''Account verified successfully.''
             (Session (jwt_sign ext (user_id u)) (user_id u) (user_name u) (user_email u))
       \<and> otpCache (snd (verifyOtp [] (Some e) (Some code) ext st)) e = None
       \<and> fst (verifyOtp [] (Some e) (Some code) ext'
                (snd (verifyOtp [] (Some e) (Some code) ext st))) =
           ErrorResponse 400 ''OTP not generated or expired''"
proof -
  obtain docs where upd:
    "findOneAndUpdate (User st) e = Some (u\<lparr>user_isVerified := True\<rparr>, docs)"
    using findOneAndUpdate_Some [OF account] by blast
  have first: "verifyOtp [] (Some e) (Some code) ext st =
      (SuccessResponse 200 ''Account verified successfully.''
         (Session (jwt_sign ext (user_id u)) (user_id u) (user_name u) (user_email u)),
       \<lparr>User = docs, otpCache = (cleanExpiredOtps (date_now ext) (otpCache st))(e := None)\<rparr>)"
    using verifyOtp_match [OF issued fresh fields correct] upd by simp
  have gone: "otpCache (snd (verifyOtp [] (Some e) (Some code) ext st)) e = None"
    by (simp add: first)
  show ?thesis
    using first gone verifyOtp_no_entry [OF gone fields] by simp
qed

theorem verifyOtp_succeeds_exactly_once_witness:
  "otpCache registered_state ''alice@x.com'' = Some \<lparr>entry_otp = 123456, entry_timestamp = 0\<rparr>
   \<and> findOne (User registered_state) ''alice@x.com'' = Some alice
   \<and> parseInt ''123456'' = Some 123456
   \<and> fst (verifyOtp [] (Some ''alice@x.com'') (Some ''123456'')
            (example_externals 1000 MailResolved) registered_state) =
         SuccessResponse 200 ''Account verified successfully.''
           (Session ''jwt'' 1 ''Alice'' ''alice@x.com'')
   \<and> fst (verifyOtp [] (Some ''alice@x.com'') (Some ''123456'')
            (example_externals 2000 MailResolved)
            (snd (verifyOtp [] (Some ''alice@x.com'') (Some ''123456'')
                    (example_externals 1000 MailResolved) registered_state))) =
         ErrorResponse 400 ''OTP not generated or expired''"
proof -
  have entry: "otpCache registered_state ''alice@x.com'' =
      Some \<lparr>entry_otp = 123456, entry_timestamp = 0\<rparr>"
    by (simp add: registered_state_def)
  have fresh: "date_now (example_externals 1000 MailResolved)
      - entry_timestamp \<lparr>entry_otp = 123456, entry_timestamp = 0\<rparr> \<le> OTP_EXPIRY_TIME"
    by (simp add: example_externals_def OTP_EXPIRY_TIME_def)
  have account: "findOne (User registered_state) ''alice@x.com'' = Some alice"
    by (simp add: findOne_def emailSetter_alice registered_state_def alice_def)
  have code: "parseInt ''123456'' = Some (entry_otp \<lparr>entry_otp = 123456, entry_timestamp = 0\<rparr>)"
    by (simp add: parseInt_123456)
  show ?thesis
    using verifyOtp_succeeds_exactly_once [OF entry fresh account _ _ code,
        of "example_externals 2000 MailResolved"] entry account parseInt_123456
    by (simp add: example_externals_def alice_def)
qed


text \<open>
  C4, as the code has it. The supplied code is compared as \<^verbatim>\<open>parseInt\<close> reads it. An
  entry for \<open>e\<close> within the expiry window and a supplied code that \<^verbatim>\<open>parseInt\<close> does not
  read as the stored number: the answer is 400 "Invalid OTP", the entry and the store are
  as before, and a later request with a code that is read as the stored number, still
  within the window, for an account that is in the store, succeeds.
\<close>

theorem verifyOtp_mismatch_keeps_entry:
  assumes live: "otpCache st e = Some d"
      "date_now ext - entry_timestamp d \<le> OTP_EXPIRY_TIME"
    and fields: "e \<noteq> []" "wrong \<noteq> []"
    and mismatch: "parseInt wrong \<noteq> Some (entry_otp d)"
  shows "fst (verifyOtp [] (Some e) (Some wrong) ext st) = ErrorResponse 400 ''Invalid OTP''
       \<and> otpCache (snd (verifyOtp [] (Some e) (Some wrong) ext st)) e = Some d
       \<and> User (snd (verifyOtp [] (Some e) (Some wrong) ext st)) = User st
       \<and> (date_now ext' - entry_timestamp d \<le> OTP_EXPIRY_TIME \<and> code \<noteq> []
            \<and> parseInt code = Some (entry_otp d) \<and> findOne (User st) e = Some u
          \<longrightarrow> fst (verifyOtp [] (Some e) (Some code) ext'
                     (snd (verifyOtp [] (Some e) (Some wrong) ext st))) =
                SuccessResponse 200 ''Account verified successfully.''
                  (Session (jwt_sign ext' (user_id u)) (user_id u) (user_name u)
                     (user_email u)))"
proof -
  let ?st' = "snd (verifyOtp [] (Some e) (Some wrong) ext st)"
  have first: "verifyOtp [] (Some e) (Some wrong) ext st =
      (ErrorResponse 400 ''Invalid OTP'',
       st\<lparr>otpCache := cleanExpiredOtps (date_now ext) (otpCache st)\<rparr>)"
    by (rule verifyOtp_mismatch [OF live fields mismatch])
  have kept: "otpCache ?st' e = Some d"
    using live by (simp add: first cleanExpiredOtps_live)
  have store: "User ?st' = User st"
    by (simp add: first)
  have again: "fst (verifyOtp [] (Some e) (Some code) ext' ?st') =
      SuccessResponse 200 ''Account verified successfully.''
        (Session (jwt_sign ext' (user_id u)) (user_id u) (user_name u) (user_email u))"
    if later: "date_now ext' - entry_timestamp d \<le> OTP_EXPIRY_TIME" "code \<noteq> []"
      "parseInt code = Some (entry_otp d)" "findOne (User st) e = Some u"
  proof -
    obtain docs where
      "findOneAndUpdate (User ?st') e = Some (u\<lparr>user_isVerified := True\<rparr>, docs)"
      using findOneAndUpdate_Some [of "User ?st'" e u] later(4) store by auto
    then show ?thesis
      using verifyOtp_match [OF kept later(1) fields(1) later(2) later(3)] by simp
  qed
  show ?thesis
    using first kept store again by simp
qed

theorem verifyOtp_mismatch_keeps_entry_witness:
  "parseInt ''654321'' \<noteq> Some 123456
   \<and> fst (verifyOtp [] (Some ''alice@x.com'') (Some ''654321'')
            (example_externals 1000 MailResolved) registered_state) =
         ErrorResponse 400 ''Invalid OTP''
   \<and> otpCache (snd (verifyOtp [] (Some ''alice@x.com'') (Some ''654321'')
            (example_externals 1000 MailResolved) registered_state)) ''alice@x.com'' =
         Some \<lparr>entry_otp = 123456, entry_timestamp = 0\<rparr>
   \<and> fst (verifyOtp [] (Some ''alice@x.com'') (Some ''123456'')
            (example_externals 600000 MailResolved)
            (snd (verifyOtp [] (Some ''alice@x.com'') (Some ''654321'')
                    (example_externals 1000 MailResolved) registered_state))) =
         SuccessResponse 200 ''Account verified successfully.''
           (Session ''jwt'' 1 ''Alice'' ''alice@x.com'')"
proof -
  have fresh: "date_now (example_externals 1000 MailResolved)
      - entry_timestamp \<lparr>entry_otp = 123456, entry_timestamp = 0\<rparr> \<le> OTP_EXPIRY_TIME"
    by (simp add: example_externals_def OTP_EXPIRY_TIME_def)
  have wrong: "parseInt ''654321'' \<noteq> Some (entry_otp \<lparr>entry_otp = 123456, entry_timestamp = 0\<rparr>)"
    by (simp add: parseInt_654321)
  have later: "date_now (example_externals 600000 MailResolved)
      - entry_timestamp \<lparr>entry_otp = 123456, entry_timestamp = 0\<rparr> \<le> OTP_EXPIRY_TIME"
    by (simp add: example_externals_def OTP_EXPIRY_TIME_def)
  show ?thesis
    using verifyOtp_mismatch_keeps_entry [OF registered_entry fresh _ _ wrong,
        of "example_externals 600000 MailResolved" "''123456''" alice]
      later registered_account parseInt_123456 parseInt_654321
    by (simp add: example_externals_def alice_def)
qed

text \<open>
  C4 as stated has every supplied code other than the issued one refused. The issued
  passcode is 123456 and the supplied code is \<^verbatim>\<open>123456abc\<close>: \<^verbatim>\<open>parseInt\<close> reads it as
  123456 and the answer is the success.
\<close>

theorem verifyOtp_mismatch_counterexample:
  "''123456abc'' \<noteq> ''123456''
   \<and> otpCache registered_state ''alice@x.com'' =
       Some \<lparr>entry_otp = 123456, entry_timestamp = 0\<rparr>
   \<and> fst (verifyOtp [] (Some ''alice@x.com'') (Some ''123456abc'')
            (example_externals 1000 MailResolved) registered_state) =
         SuccessResponse 200 ''Account verified successfully.''
           (Session ''jwt'' 1 ''Alice'' ''alice@x.com'')"
proof -
  have fresh: "date_now (example_externals 1000 MailResolved)
      - entry_timestamp \<lparr>entry_otp = 123456, entry_timestamp = 0\<rparr> \<le> OTP_EXPIRY_TIME"
    by (simp add: example_externals_def OTP_EXPIRY_TIME_def)
  have code: "parseInt ''123456abc'' =
      Some (entry_otp \<lparr>entry_otp = 123456, entry_timestamp = 0\<rparr>)"
    by (simp add: parseInt_123456abc)
  have "verifyOtp [] (Some ''alice@x.com'') (Some ''123456abc'')
      (example_externals 1000 MailResolved) registered_state =
    (case findOneAndUpdate (User registered_state) ''alice@x.com'' of
       None \<Rightarrow> (ErrorResponse 404 ''User not found'',
         registered_state\<lparr>otpCache :=
           (cleanExpiredOtps (date_now (example_externals 1000 MailResolved))
              (otpCache registered_state))(''alice@x.com'' := None)\<rparr>)
     | Some (u, docs) \<Rightarrow>
         (SuccessResponse 200 ''Account verified successfully.''
            (Session (jwt_sign (example_externals 1000 MailResolved) (user_id u)) (user_id u)
               (user_name u) (user_email u)),
          \<lparr>User = docs, otpCache =
             (cleanExpiredOtps (date_now (example_externals 1000 MailResolved))
                (otpCache registered_state))(''alice@x.com'' := None)\<rparr>))"
    by (rule verifyOtp_match [OF registered_entry fresh _ _ code]) simp_all
  then show ?thesis
    by (simp add: registered_entry emailSetter_alice registered_state_def alice_def
        example_externals_def)
qed

text \<open>
  C6, as the code has it. An entry for \<open>e\<close> older than the expiry window: whatever the
  supplied code, \<^verbatim>\<open>cleanExpiredOtps\<close> evicts the entry and the answer is 400
  "OTP not generated or expired", the answer for an email with no entry.
\<close>

theorem verifyOtp_expired:
  assumes entry: "otpCache st e = Some d"
    and old: "date_now ext - entry_timestamp d > OTP_EXPIRY_TIME"
    and fields: "e \<noteq> []" "code \<noteq> []"
  shows "verifyOtp [] (Some e) (Some code) ext st =
           (ErrorResponse 400 ''OTP not generated or expired'',
            st\<lparr>otpCache := cleanExpiredOtps (date_now ext) (otpCache st)\<rparr>)
       \<and> otpCache (snd (verifyOtp [] (Some e) (Some code) ext st)) e = None"
  using assms
  by (simp add: verifyOtp_def validateRequest_def truthy_def fieldValue_def
      cleanExpiredOtps_expired)

theorem verifyOtp_expired_witness:
  "date_now (example_externals 600001 MailResolved) - 0 > OTP_EXPIRY_TIME
   \<and> verifyOtp [] (Some ''alice@x.com'') (Some ''123456'')
          (example_externals 600001 MailResolved) registered_state =
       (ErrorResponse 400 ''OTP not generated or expired'',
        registered_state\<lparr>otpCache :=
          cleanExpiredOtps 600001 (otpCache registered_state)\<rparr>)
   \<and> otpCache (snd (verifyOtp [] (Some ''alice@x.com'') (Some ''123456'')
          (example_externals 600001 MailResolved) registered_state)) ''alice@x.com'' = None"
proof -
  have old: "date_now (example_externals 600001 MailResolved)
      - entry_timestamp \<lparr>entry_otp = 123456, entry_timestamp = 0\<rparr> > OTP_EXPIRY_TIME"
    by (simp add: example_externals_def OTP_EXPIRY_TIME_def)
  have now: "date_now (example_externals 600001 MailResolved) = 600001"
    by (simp add: example_externals_def)
  show ?thesis
    using verifyOtp_expired [OF registered_entry old, of "''123456''"]
    by (auto simp: now OTP_EXPIRY_TIME_def)
qed

text \<open>
  C6 as stated asks for an answer of its own for an expired entry. At time 600001 the
  entry written at time 0 has expired; the answer to the right code is the one an email
  with no entry gets.
\<close>

theorem verifyOtp_expired_counterexample:
  "fst (verifyOtp [] (Some ''alice@x.com'') (Some ''123456'')
          (example_externals 600001 MailResolved) registered_state) =
     ErrorResponse 400 ''OTP not generated or expired''
   \<and> fst (verifyOtp [] (Some ''alice@x.com'') (Some ''123456'')
          (example_externals 600001 MailResolved) empty_state) =
     ErrorResponse 400 ''OTP not generated or expired''"
  by (simp add: verifyOtp_def validateRequest_def truthy_def fieldValue_def
      cleanExpiredOtps_def OTP_EXPIRY_TIME_def example_defs Let_def)

text \<open>
  C10. The entry is deleted before the account is looked up: with a live entry, a matching
  code and no account for \<open>e\<close>, the answer is 404 "User not found", the entry is gone
  and the store is as before; the same request repeated is answered 400
  "OTP not generated or expired".
\<close>

theorem verifyOtp_consumes_before_account_lookup:
  assumes live: "otpCache st e = Some d"
      "date_now ext - entry_timestamp d \<le> OTP_EXPIRY_TIME"
    and fields: "e \<noteq> []" "code \<noteq> []"
    and correct: "parseInt code = Some (entry_otp d)"
    and absent: "findOne (User st) e = None"
  shows "fst (verifyOtp [] (Some e) (Some code) ext st) = ErrorResponse 404 ''User not found''
       \<and> otpCache (snd (verifyOtp [] (Some e) (Some code) ext st)) e = None
       \<and> User (snd (verifyOtp [] (Some e) (Some code) ext st)) = User st
       \<and> fst (verifyOtp [] (Some e) (Some code) ext'
                (snd (verifyOtp [] (Some e) (Some code) ext st))) =
           ErrorResponse 400 ''OTP not generated or expired''"
proof -
  have none: "findOneAndUpdate (User st) e = None"
    using absent by (simp add: findOneAndUpdate_None)
  have first: "verifyOtp [] (Some e) (Some code) ext st =
      (ErrorResponse 404 ''User not found'',
       st\<lparr>otpCache := (cleanExpiredOtps (date_now ext) (otpCache st))(e := None)\<rparr>)"
    using verifyOtp_match [OF live fields correct] none by simp
  have gone: "otpCache (snd (verifyOtp [] (Some e) (Some code) ext st)) e = None"
    by (simp add: first)
  show ?thesis
    using first gone verifyOtp_no_entry [OF gone fields] by simp
qed

theorem verifyOtp_consumes_before_account_lookup_witness:
  "findOne (User orphan_state) ''alice@x.com'' = None
   \<and> fst (verifyOtp [] (Some ''alice@x.com'') (Some ''123456'')
            (example_externals 1000 MailResolved) orphan_state) =
         ErrorResponse 404 ''User not found''
   \<and> otpCache (snd (verifyOtp [] (Some ''alice@x.com'') (Some ''123456'')
            (example_externals 1000 MailResolved) orphan_state)) ''alice@x.com'' = None
   \<and> fst (verifyOtp [] (Some ''alice@x.com'') (Some ''123456'')
            (example_externals 2000 MailResolved)
            (snd (verifyOtp [] (Some ''alice@x.com'') (Some ''123456'')
                    (example_externals 1000 MailResolved) orphan_state))) =
         ErrorResponse 400 ''OTP not generated or expired''"
proof -
  have entry: "otpCache orphan_state ''alice@x.com'' =
      Some \<lparr>entry_otp = 123456, entry_timestamp = 0\<rparr>"
    by (simp add: orphan_state_def)
  have fresh: "date_now (example_externals 1000 MailResolved)
      - entry_timestamp \<lparr>entry_otp = 123456, entry_timestamp = 0\<rparr> \<le> OTP_EXPIRY_TIME"
    by (simp add: example_externals_def OTP_EXPIRY_TIME_def)
  have code: "parseInt ''123456'' = Some (entry_otp \<lparr>entry_otp = 123456, entry_timestamp = 0\<rparr>)"
    by (simp add: parseInt_123456)
  have absent: "findOne (User orphan_state) ''alice@x.com'' = None"
    by (simp add: findOne_def orphan_state_def)
  show ?thesis
    using verifyOtp_consumes_before_account_lookup [OF entry fresh _ _ code absent,
        of "example_externals 2000 MailResolved"] absent
    by simp
qed


section \<open>Login\<close>

text \<open>
  C1, as the code has it. \<^verbatim>\<open>loginUser\<close> tests \<^verbatim>\<open>isVerified\<close> before it compares the
  password: for an account that is not verified the answer is 401 "Please verify your
  account first" whatever the password; the answer is 401 "Invalid email or password"
  both when no account has the email and when the account is verified and the password
  does not match.
\<close>

theorem loginUser_errors:
  "(findOne (User st) email = Some u \<and> \<not> user_isVerified u
      \<longrightarrow> loginUser [] email password ext st =
            (ErrorResponse 401 ''Please verify your account first'', st))
   \<and> (findOne (User st) email = None
        \<or> (findOne (User st) email = Some u \<and> user_isVerified u
            \<and> \<not> bcrypt_compare ext password (user_password u))
      \<longrightarrow> loginUser [] email password ext st =
            (ErrorResponse 401 ''Invalid email or password'', st))"
  by (auto simp: loginUser_def validateRequest_def)

theorem loginUser_errors_witness:
  "findOne (User registered_state) ''alice@x.com'' = Some alice
   \<and> \<not> user_isVerified alice
   \<and> loginUser [] ''alice@x.com'' ''secret1'' (example_externals 1000 MailResolved)
         registered_state =
       (ErrorResponse 401 ''Please verify your account first'', registered_state)
   \<and> findOne (User empty_state) ''alice@x.com'' = None
   \<and> loginUser [] ''alice@x.com'' ''secret1'' (example_externals 1000 MailResolved)
         empty_state =
       (ErrorResponse 401 ''Invalid email or password'', empty_state)
   \<and> findOne (User verified_state) ''alice@x.com'' = Some (alice\<lparr>user_isVerified := True\<rparr>)
   \<and> \<not> bcrypt_compare (example_externals 1000 MailResolved) ''wrong11''
         (user_password (alice\<lparr>user_isVerified := True\<rparr>))
   \<and> loginUser [] ''alice@x.com'' ''wrong11'' (example_externals 1000 MailResolved)
         verified_state =
       (ErrorResponse 401 ''Invalid email or password'', verified_state)"
proof -
  have unverified: "\<not> user_isVerified alice"
    by (simp add: alice_def)
  have verified: "findOne (User verified_state) ''alice@x.com'' =
      Some (alice\<lparr>user_isVerified := True\<rparr>)"
    by (simp add: findOne_def emailSetter_alice verified_state_def alice_def)
  have wrong: "\<not> bcrypt_compare (example_externals 1000 MailResolved) ''wrong11''
      (user_password (alice\<lparr>user_isVerified := True\<rparr>))"
    by (simp add: example_externals_def alice_def)
  show ?thesis
    using loginUser_errors [of registered_state "''alice@x.com''" alice "''secret1''"
        "example_externals 1000 MailResolved"]
      loginUser_errors [of empty_state "''alice@x.com''" alice "''secret1''"
        "example_externals 1000 MailResolved"]
      loginUser_errors [of verified_state "''alice@x.com''" "alice\<lparr>user_isVerified := True\<rparr>"
        "''wrong11''" "example_externals 1000 MailResolved"]
      registered_account unverified findOne_empty [of "''alice@x.com''"] verified wrong
    by simp
qed

text \<open>
  C1 as stated has the generic error for every password that does not match. Alice's
  account is not verified and the password is wrong: the answer is the one that asks for
  verification.
\<close>

theorem loginUser_errors_counterexample:
  "findOne (User registered_state) ''alice@x.com'' = Some alice
   \<and> \<not> user_isVerified alice
   \<and> \<not> bcrypt_compare (example_externals 1000 MailResolved) ''wrong11'' (user_password alice)
   \<and> fst (loginUser [] ''alice@x.com'' ''wrong11'' (example_externals 1000 MailResolved)
            registered_state) =
         ErrorResponse 401 ''Please verify your account first''"
  by (simp add: loginUser_def validateRequest_def findOne_def emailSetter_alice example_defs)

section \<open>Registration and resending\<close>



text \<open>
  C8. When an account has the email, verified or not, \<^verbatim>\<open>registerUser\<close> answers 400
  "User already exists" and changes nothing; so does a second registration of an email
  right after the first created its account; and no registration gives two accounts one
  email.
\<close>

theorem registerUser_already_exists:
  "(findOne (User st) email = Some existingUser
      \<longrightarrow> registerUser [] name email password ext st =
            (ErrorResponse 400 ''User already exists'', st))
   \<and> (findOne (User st) email = None
        \<and> create (User st) (objectId ext) name email (bcrypt_hash ext password) =
            Inr (newUser, docs)
      \<longrightarrow> registerUser [] name' email password' ext'
              (snd (registerUser [] name email password ext st)) =
            (ErrorResponse 400 ''User already exists'',
             snd (registerUser [] name email password ext st)))
   \<and> (distinct (map user_email (User st))
      \<longrightarrow> distinct (map user_email
              (User (snd (registerUser errors name email password ext st)))))"
proof (intro conjI impI)
  show "registerUser [] name email password ext st =
      (ErrorResponse 400 ''User already exists'', st)"
    if "findOne (User st) email = Some existingUser"
    using that by (simp add: registerUser_def validateRequest_def)
  show "registerUser [] name' email password' ext'
        (snd (registerUser [] name email password ext st)) =
      (ErrorResponse 400 ''User already exists'',
       snd (registerUser [] name email password ext st))"
    if a: "findOne (User st) email = None
        \<and> create (User st) (objectId ext) name email (bcrypt_hash ext password) =
            Inr (newUser, docs)"
  proof -
    have "findOne (User (snd (registerUser [] name email password ext st))) email =
        Some newUser"
      using registerUser_issues [OF conjunct1 [OF a] conjunct2 [OF a]] by simp
    then show ?thesis
      by (simp add: registerUser_def [of "[]" name' email password' ext'] validateRequest_def)
  qed
  show "distinct (map user_email (User (snd (registerUser errors name email password ext st))))"
    if "distinct (map user_email (User st))"
    using that by (rule registerUser_emails_distinct)
qed

theorem registerUser_already_exists_witness:
  "findOne (User registered_state) ''alice@x.com'' = Some alice
   \<and> registerUser [] ''Alice B'' ''alice@x.com'' ''secret2''
        (example_externals 7000 MailResolved) registered_state =
       (ErrorResponse 400 ''User already exists'', registered_state)
   \<and> findOne (User empty_state) ''alice@x.com'' = None
   \<and> registerUser [] ''Alice B'' ''alice@x.com'' ''secret2''
        (example_externals 7000 MailResolved)
        (snd (registerUser [] ''Alice'' ''alice@x.com'' ''secret1''
                (example_externals 0 MailResolved) empty_state)) =
       (ErrorResponse 400 ''User already exists'', registered_state)
   \<and> distinct (map user_email (User registered_state))
   \<and> distinct (map user_email
        (User (snd (registerUser [] ''Alice B'' ''alice@x.com'' ''secret2''
                      (example_externals 7000 MailResolved) registered_state))))"
proof -
  have d: "distinct (map user_email (User registered_state))"
    by (simp add: registered_state_def)
  have s: "snd (registerUser [] ''Alice'' ''alice@x.com'' ''secret1''
                (example_externals 0 MailResolved) empty_state) = registered_state"
    by (simp add: registerUser_example)
  show ?thesis
    using registerUser_already_exists [where st = registered_state
        and email = "''alice@x.com''" and existingUser = alice and name = "''Alice B''"
        and password = "''secret2''" and ext = "example_externals 7000 MailResolved"
        and errors = "[]"]
      registerUser_already_exists [where st = empty_state
        and email = "''alice@x.com''" and name = "''Alice''" and password = "''secret1''"
        and ext = "example_externals 0 MailResolved" and newUser = alice and docs = "[alice]"
        and name' = "''Alice B''" and password' = "''secret2''"
        and ext' = "example_externals 7000 MailResolved"]
      registered_account findOne_empty [of "''alice@x.com''"] create_alice [of MailResolved] d s
    by simp
qed

text \<open>
  C5, as the code has it. The passcode \<^verbatim>\<open>generateOtp\<close> returns is always a number of
  six decimal digits whose first digit is not zero (at least 100000 and below 1000000);
  every number from 100000 to 999998 is the passcode of some draw; and both
  \<^verbatim>\<open>registerUser\<close> and \<^verbatim>\<open>resendOtp\<close> set the entry of the email to the passcode of the
  draw and the current time, whatever entry the email had.
\<close>

theorem generateOtp_issue:
  "100000 \<le> generateOtp ext \<and> generateOtp ext < 1000000
   \<and> (100000 \<le> n \<and> n < 999999
      \<longrightarrow> generateOtp (ext\<lparr>random_draw := nat (n - 100000)\<rparr>) = n)
   \<and> (findOne (User st) email = None
        \<and> create (User st) (objectId ext) name email (bcrypt_hash ext password) =
            Inr (newUser, docs)
      \<longrightarrow> otpCache (snd (registerUser [] name email password ext st)) email =
            Some \<lparr>entry_otp = generateOtp ext, entry_timestamp = date_now ext\<rparr>)
   \<and> (e \<noteq> [] \<and> findOne (User st) e = Some u
      \<longrightarrow> otpCache (snd (resendOtp [] (Some e) ext st)) e =
            Some \<lparr>entry_otp = generateOtp ext, entry_timestamp = date_now ext\<rparr>)"
proof (intro conjI impI)
  have below: "int (random_draw ext mod 899999) < 899999"
    by simp
  show "100000 \<le> generateOtp ext"
    by (simp add: generateOtp_def randomInt_def OTP_LENGTH_def)
  show "generateOtp ext < 1000000"
    using below by (simp add: generateOtp_def randomInt_def OTP_LENGTH_def)
next
  assume n: "100000 \<le> n \<and> n < 999999"
  then have "nat (n - 100000) < 899999"
    by linarith
  then have "nat (n - 100000) mod 899999 = nat (n - 100000)"
    by (rule mod_less)
  then show "generateOtp (ext\<lparr>random_draw := nat (n - 100000)\<rparr>) = n"
    using n by (simp add: generateOtp_def randomInt_def OTP_LENGTH_def)
next
  assume a: "findOne (User st) email = None
        \<and> create (User st) (objectId ext) name email (bcrypt_hash ext password) =
            Inr (newUser, docs)"
  show "otpCache (snd (registerUser [] name email password ext st)) email =
            Some \<lparr>entry_otp = generateOtp ext, entry_timestamp = date_now ext\<rparr>"
    using registerUser_issues [OF conjunct1 [OF a] conjunct2 [OF a]] by simp
next
  assume b: "e \<noteq> [] \<and> findOne (User st) e = Some u"
  show "otpCache (snd (resendOtp [] (Some e) ext st)) e =
            Some \<lparr>entry_otp = generateOtp ext, entry_timestamp = date_now ext\<rparr>"
    using resendOtp_issues [OF conjunct1 [OF b] conjunct2 [OF b], of ext] by simp
qed

theorem generateOtp_issue_witness:
  "generateOtp (example_externals 5000 MailResolved) = 123456
   \<and> generateOtp ((example_externals 5000 MailResolved)\<lparr>random_draw := nat (654321 - 100000)\<rparr>) =
       654321
   \<and> otpCache (snd (registerUser [] ''Alice'' ''alice@x.com'' ''secret1''
        (example_externals 5000 MailResolved) empty_state)) ''alice@x.com'' =
       Some \<lparr>entry_otp = 123456, entry_timestamp = 5000\<rparr>
   \<and> otpCache registered_state ''alice@x.com'' =
       Some \<lparr>entry_otp = 123456, entry_timestamp = 0\<rparr>
   \<and> otpCache (snd (resendOtp [] (Some ''alice@x.com'')
        (example_externals 5000 MailResolved) registered_state)) ''alice@x.com'' =
       Some \<lparr>entry_otp = 123456, entry_timestamp = 5000\<rparr>"
proof -
  have ext: "date_now (example_externals t m) = t" "objectId (example_externals t m) = 1"
      "bcrypt_hash (example_externals t m) ''secret1'' = ''bcrypt:secret1''" for t m
    by (simp_all add: example_externals_def)
  have cr: "create (User empty_state) 1 ''Alice'' ''alice@x.com'' ''bcrypt:secret1'' =
      Inr (alice, [alice])"
    using create_alice [of MailResolved] by (simp add: ext)
  show ?thesis
    using generateOtp_issue [where ext = "example_externals 5000 MailResolved"
        and n = 654321 and st = empty_state and email = "''alice@x.com''"
        and name = "''Alice''" and password = "''secret1''" and newUser = alice
        and docs = "[alice]"]
      generateOtp_issue [where ext = "example_externals 5000 MailResolved"
        and st = registered_state and e = "''alice@x.com''" and u = alice]
      findOne_empty [of "''alice@x.com''"] registered_account registered_entry cr
    by (simp add: ext generateOtp_example)
qed

text \<open>
  C5 as stated has every combination of six digits in the range, those with leading
  zeros too. No draw gives the passcode \<^verbatim>\<open>012345\<close>.
\<close>

theorem generateOtp_leading_zero_counterexample:
  "\<not> (\<exists>ext :: string externals. generateOtp ext = 12345)"
  by (simp add: generateOtp_def randomInt_def OTP_LENGTH_def)

section \<open>The token round trip\<close>

text \<open>
  C9. A token issued for an account identifier verifies to that identifier at any time
  before its expiry, and fails with \<open>Expired\<close> after the expiry has passed.
\<close>

theorem token_round_trip:
  "(now' < now + validity
      \<longrightarrow> token_verify hmac secret now' (Some (token_issue hmac secret validity now accountId)) =
            Inr accountId)
   \<and> (now + validity < now'
      \<longrightarrow> token_verify hmac secret now' (Some (token_issue hmac secret validity now accountId)) =
            Inl Expired)"
  by (simp add: token_verify_def token_issue_def)

theorem token_round_trip_witness:
  "token_verify example_hmac ''supersecretkey'' 86399
       (Some (token_issue example_hmac ''supersecretkey'' 86400 0 1)) = Inr 1
   \<and> token_verify example_hmac ''supersecretkey'' 86401
       (Some (token_issue example_hmac ''supersecretkey'' 86400 0 1)) = Inl Expired"
  using token_round_trip [of 86399 0 86400 example_hmac "''supersecretkey''" 1]
    token_round_trip [of 86401 0 86400 example_hmac "''supersecretkey''" 1]
  by simp

end
